theory Spec2Isabelle
  imports Complex_Main
begin

section \<open>Air-quality dashboard: feature derivation and the simple AQI\<close>

text \<open>
  A shallow embedding of the computations of \<^verbatim>\<open>dashboard.py\<close> that carry logic
  of their own: the data cleaning, time stamps and season binning of \<^verbatim>\<open>load_data\<close>,
  \<^verbatim>\<open>calculate_simple_aqi\<close> and \<^verbatim>\<open>classify_aqi\<close>.  Plotting and page
  navigation are not modelled.
\<close>

subsection \<open>Floating-point values\<close>

text \<open>
  The cells of the data frame and the daily means are \<^verbatim>\<open>numpy.float64\<close> values.  A
  value is a finite number, one of the two infinities, or NaN (which pandas also uses for
  a missing cell).  Finite values are modelled as reals: rounding, overflow and the sign
  of zero are idealised away, everything else (NaN never compares, division by zero does
  not raise for \<^verbatim>\<open>numpy.float64\<close>) is kept.
\<close>

datatype float64 = Fin real | PInf | NInf | NaN

text \<open>\<^verbatim>\<open>a <= b\<close>\<close>

fun fle :: "float64 \<Rightarrow> float64 \<Rightarrow> bool" where
  "fle NaN _ = False"
| "fle _ NaN = False"
| "fle (Fin a) (Fin b) = (a \<le> b)"
| "fle NInf _ = True"
| "fle _ PInf = True"
| "fle PInf _ = False"
| "fle (Fin _) NInf = False"

text \<open>\<^verbatim>\<open>a > b\<close>\<close>

fun fgt :: "float64 \<Rightarrow> float64 \<Rightarrow> bool" where
  "fgt NaN _ = False"
| "fgt _ NaN = False"
| "fgt (Fin a) (Fin b) = (b < a)"
| "fgt PInf PInf = False"
| "fgt PInf _ = True"
| "fgt NInf _ = False"
| "fgt (Fin _) NInf = True"
| "fgt (Fin _) PInf = False"

text \<open>\<^verbatim>\<open>a / b\<close> on \<^verbatim>\<open>numpy.float64\<close>: a zero divisor gives an infinity or NaN.\<close>

fun fdiv :: "float64 \<Rightarrow> float64 \<Rightarrow> float64" where
  "fdiv NaN _ = NaN"
| "fdiv _ NaN = NaN"
| "fdiv (Fin a) (Fin b) =
     (if b \<noteq> 0 then Fin (a / b)
      else if a = 0 then NaN
      else if 0 < a then PInf else NInf)"
| "fdiv (Fin _) PInf = Fin 0"
| "fdiv (Fin _) NInf = Fin 0"
| "fdiv PInf (Fin b) = (if b < 0 then NInf else PInf)"
| "fdiv NInf (Fin b) = (if b < 0 then PInf else NInf)"
| "fdiv PInf PInf = NaN"
| "fdiv PInf NInf = NaN"
| "fdiv NInf PInf = NaN"
| "fdiv NInf NInf = NaN"

text \<open>
  Python's built-in \<^verbatim>\<open>max(x, y, ...)\<close>: it keeps the first argument and replaces it
  by a later one only when that one compares strictly greater.
\<close>

definition py_max :: "float64 \<Rightarrow> float64 list \<Rightarrow> float64" where
  "py_max x xs = foldl (\<lambda>max_item item. if fgt item max_item then item else max_item) x xs"

subsection \<open>Exceptions\<close>

text \<open>
  The two exceptions that the modelled code can raise: \<^verbatim>\<open>KeyError\<close> with the
  absent key, from a lookup, and \<^verbatim>\<open>ValueError\<close>, from the assembly of the time
  stamps.
\<close>

datatype error = KeyError string | ValueError

subsection \<open>Missing values: \<^verbatim>\<open>fillna(method='ffill')\<close>\<close>

text \<open>
  A column is the list of its cells in row order, a missing cell being \<open>None\<close>.  The
  forward fill walks down the column and carries the last valid cell seen so far.
\<close>

type_synonym 'a column = "'a option list"

fun ffill_from :: "'a option \<Rightarrow> 'a column \<Rightarrow> 'a column" where
  "ffill_from last_valid [] = []"
| "ffill_from last_valid (None # cells) = last_valid # ffill_from last_valid cells"
| "ffill_from last_valid (Some v # cells) = Some v # ffill_from (Some v) cells"

definition ffill :: "'a column \<Rightarrow> 'a column" where
  "ffill cells = ffill_from None cells"

text \<open>A data frame: its columns by name, in order.  The fill treats every column alike.\<close>

type_synonym 'a dataframe = "(string \<times> 'a column) list"

definition fillna_ffill :: "'a dataframe \<Rightarrow> 'a dataframe" where
  "fillna_ffill df = map (\<lambda>(name, cells). (name, ffill cells)) df"

subsection \<open>Seasons: \<^verbatim>\<open>pd.cut(month, bins, labels, include_lowest=True)\<close>\<close>




subsection \<open>Time stamps and the derived row of \<^verbatim>\<open>load_data\<close>\<close>







subsection \<open>The simple AQI\<close>

text \<open>
  A row of the daily means and the table of limits are both looked up by pollutant name;
  \<^verbatim>\<open>t[k]\<close> raises \<^verbatim>\<open>KeyError\<close> for a name that is absent.
\<close>

type_synonym table = "(string \<times> float64) list"

definition getitem :: "table \<Rightarrow> string \<Rightarrow> error + float64" where
  "getitem t k = (case map_of t k of None \<Rightarrow> Inl (KeyError k) | Some v \<Rightarrow> Inr v)"

text \<open>\<^verbatim>\<open>row[p] / who_limits[p]\<close>: the row is read first, then the limits.\<close>

definition row_over_limit :: "table \<Rightarrow> table \<Rightarrow> string \<Rightarrow> error + float64" where
  "row_over_limit row who_limits p =
     (case getitem row p of
        Inl e \<Rightarrow> Inl e
      | Inr x \<Rightarrow>
          (case getitem who_limits p of
             Inl e \<Rightarrow> Inl e
           | Inr l \<Rightarrow> Inr (fdiv x l)))"

definition calculate_simple_aqi :: "table \<Rightarrow> table \<Rightarrow> error + float64" where
  "calculate_simple_aqi row who_limits =
     (case row_over_limit row who_limits ''PM2.5'' of
        Inl e \<Rightarrow> Inl e
      | Inr pm25_aqi \<Rightarrow>
          (case row_over_limit row who_limits ''PM10'' of
             Inl e \<Rightarrow> Inl e
           | Inr pm10_aqi \<Rightarrow>
               (case row_over_limit row who_limits ''NO2'' of
                  Inl e \<Rightarrow> Inl e
                | Inr no2_aqi \<Rightarrow> Inr (py_max pm25_aqi [pm10_aqi, no2_aqi]))))"

definition classify_aqi :: "float64 \<Rightarrow> string" where
  "classify_aqi aqi =
     (if fle aqi (Fin 1) then ''Good''
      else if fle aqi (Fin 2) then ''Moderate''
      else if fle aqi (Fin 3) then ''Unhealthy for Sensitive Groups''
      else if fle aqi (Fin 4) then ''Unhealthy''
      else ''Very Unhealthy'')"

text \<open>The table of WHO guideline values that \<^verbatim>\<open>main\<close> passes on.\<close>

definition who_limits :: table where
  "who_limits =
     [(''PM2.5'', Fin 25), (''PM10'', Fin 50), (''NO2'', Fin 40), (''SO2'', Fin 20),
      (''O3'', Fin 100)]"

text \<open>
  The score as the specification words it, for comparison with the code:
  \<open>value = max\<close> over every pollutant \<open>p\<close> of \<^verbatim>\<open>limits.keys()\<close> of
  \<^verbatim>\<open>aggregate[p] / limits[p]\<close>; no value when the aggregate lacks a pollutant of the
  limits table or the table is empty.
\<close>

definition score_spec :: "table \<Rightarrow> table \<Rightarrow> float64 option" where
  "score_spec aggregate limits =
     (case those (map (\<lambda>(p, l). map_option (\<lambda>x. fdiv x l) (map_of aggregate p)) limits) of
        Some (r # rs) \<Rightarrow> Some (py_max r rs)
      | _ \<Rightarrow> None)"

section \<open>Properties\<close>

subsection \<open>Auxiliary facts\<close>

lemma py_max3_Fin: "py_max (Fin a) [Fin b, Fin c] = Fin (max a (max b c))"
  by (simp add: py_max_def max_def)

lemma row_over_limit_Fin:
  "map_of row p = Some (Fin x) \<Longrightarrow> map_of limits p = Some (Fin l) \<Longrightarrow> l \<noteq> 0 \<Longrightarrow>
   row_over_limit row limits p = Inr (Fin (x / l))"
  by (simp add: row_over_limit_def getitem_def)

lemma calculate_simple_aqi_Fin:
  assumes "map_of row ''PM2.5'' = Some (Fin x25)" "map_of limits ''PM2.5'' = Some (Fin l25)"
      "l25 \<noteq> 0"
    and "map_of row ''PM10'' = Some (Fin x10)" "map_of limits ''PM10'' = Some (Fin l10)"
      "l10 \<noteq> 0"
    and "map_of row ''NO2'' = Some (Fin xno2)" "map_of limits ''NO2'' = Some (Fin lno2)"
      "lno2 \<noteq> 0"
  shows "calculate_simple_aqi row limits =
    Inr (Fin (max (x25 / l25) (max (x10 / l10) (xno2 / lno2))))"
  using assms by (simp add: calculate_simple_aqi_def row_over_limit_Fin py_max3_Fin)

lemma row_over_limit_isl:
  "isl (row_over_limit row limits p) \<longleftrightarrow> map_of row p = None \<or> map_of limits p = None"
  by (simp add: row_over_limit_def getitem_def split: option.splits)

lemma length_ffill_from: "length (ffill_from l xs) = length xs"
  by (induction l xs rule: ffill_from.induct) simp_all

lemma ffill_from_all_missing:
  "i < length xs \<Longrightarrow> \<forall>j\<le>i. xs ! j = None \<Longrightarrow> ffill_from l xs ! i = l"
proof (induction xs arbitrary: i)
  case Nil
  then show ?case by simp
next
  case (Cons x xs)
  from Cons.prems(2) have x: "x = None" by auto
  show ?case
  proof (cases i)
    case 0
    with x show ?thesis by simp
  next
    case (Suc n)
    from Cons.prems(2) Suc have "\<forall>j\<le>n. xs ! j = None" by auto
    with Cons.IH [of n] Cons.prems(1) Suc x show ?thesis by simp
  qed
qed

lemma ffill_from_keeps:
  "i < length xs \<Longrightarrow> xs ! i = Some v \<Longrightarrow> ffill_from l xs ! i = Some v"
proof (induction l xs arbitrary: i rule: ffill_from.induct)
  case (1 last_valid)
  then show ?case by simp
next
  case (2 last_valid cells)
  then show ?case by (cases i) simp_all
next
  case (3 last_valid v' cells)
  then show ?case by (cases i) simp_all
qed

lemma ffill_from_carries:
  "i < length xs \<Longrightarrow> j < i \<Longrightarrow> xs ! j = Some v \<Longrightarrow>
   \<forall>k. j < k \<and> k \<le> i \<longrightarrow> xs ! k = None \<Longrightarrow> ffill_from l xs ! i = Some v"
proof (induction l xs arbitrary: i j rule: ffill_from.induct)
  case (1 last_valid)
  then show ?case by simp
next
  case (2 last_valid cells)
  from "2.prems"(2) obtain n where i: "i = Suc n" by (cases i) auto
  from "2.prems"(3) obtain m where j: "j = Suc m" by (cases j) auto
  from "2.prems"(4) i j have "\<forall>k. m < k \<and> k \<le> n \<longrightarrow> cells ! k = None" by auto
  with "2.IH" [of n m] "2.prems" i j show ?case by simp
next
  case (3 last_valid v' cells)
  from "3.prems"(2) obtain n where i: "i = Suc n" by (cases i) auto
  show ?case
  proof (cases j)
    case 0
    with "3.prems"(3) have v: "v' = v" by simp
    from "3.prems"(4) 0 i have "\<forall>k\<le>n. cells ! k = None" by auto
    with ffill_from_all_missing [of n cells "Some v"] "3.prems"(1) i v show ?thesis by simp
  next
    case (Suc m)
    from "3.prems"(4) i Suc have "\<forall>k. m < k \<and> k \<le> n \<longrightarrow> cells ! k = None" by auto
    with "3.IH" [of n m] "3.prems" i Suc show ?thesis by simp
  qed
qed

lemma ffill_from_idem: "ffill_from l (ffill_from l xs) = ffill_from l xs"
proof (induction l xs rule: ffill_from.induct)
  case (2 last_valid cells)
  then show ?case by (cases last_valid) simp_all
qed simp_all

lemma map_of_fillna_ffill: "map_of (fillna_ffill df) name = map_option ffill (map_of df name)"
  by (induction df) (auto simp add: fillna_ffill_def)



subsection \<open>The score\<close>

text \<open>
  C1, as stated, fails.  For a day whose SO2 mean is 1000 and the limits of \<^verbatim>\<open>main\<close>
  (SO2: 20), the maximum over every pollutant of the limits table is the SO2 ratio 50,
  while \<^verbatim>\<open>calculate_simple_aqi\<close> returns 2: it reads PM2.5, PM10 and NO2 only.
\<close>

theorem calculate_simple_aqi_ignores_so2:
  "calculate_simple_aqi
     [(''PM2.5'', Fin 50), (''PM10'', Fin 50), (''SO2'', Fin 1000), (''NO2'', Fin 20),
      (''CO'', Fin 1200), (''O3'', Fin 10)] who_limits = Inr (Fin 2) \<and>
   score_spec
     [(''PM2.5'', Fin 50), (''PM10'', Fin 50), (''SO2'', Fin 1000), (''NO2'', Fin 20),
      (''CO'', Fin 1200), (''O3'', Fin 10)] who_limits = Some (Fin 50)"
  by (simp add: calculate_simple_aqi_def row_over_limit_def getitem_def py_max_def
      score_spec_def who_limits_def)

text \<open>
  C1, amended.  For every daily aggregate and limits table whose PM2.5, PM10 and NO2
  entries are finite numbers, the limits not zero, the score is the maximum over exactly
  these three pollutants of daily mean divided by limit.  Whatever else the two tables
  hold (SO2, O3, CO) does not enter the value.
\<close>

theorem calculate_simple_aqi_max_of_three:
  assumes "map_of row ''PM2.5'' = Some (Fin x25)" "map_of limits ''PM2.5'' = Some (Fin l25)"
      "l25 \<noteq> 0"
    and "map_of row ''PM10'' = Some (Fin x10)" "map_of limits ''PM10'' = Some (Fin l10)"
      "l10 \<noteq> 0"
    and "map_of row ''NO2'' = Some (Fin xno2)" "map_of limits ''NO2'' = Some (Fin lno2)"
      "lno2 \<noteq> 0"
  shows "calculate_simple_aqi row limits = Inr (Fin (Max {x25 / l25, x10 / l10, xno2 / lno2}))"
  using assms by (simp add: calculate_simple_aqi_Fin)

theorem calculate_simple_aqi_max_of_three_witness:
  "calculate_simple_aqi
     [(''PM2.5'', Fin 50), (''PM10'', Fin 50), (''SO2'', Fin 1000), (''NO2'', Fin 20)]
     who_limits = Inr (Fin 2)"
  using calculate_simple_aqi_max_of_three
    [of "[(''PM2.5'', Fin 50), (''PM10'', Fin 50), (''SO2'', Fin 1000), (''NO2'', Fin 20)]"
      50 who_limits 25 50 50 20 40]
  by (simp add: who_limits_def)

text \<open>
  C6.  For the daily aggregate \<open>{PM2.5: 50, PM10: 50, NO2: 20}\<close> and the limits
  \<open>{PM2.5: 25, PM10: 50, NO2: 40}\<close> the three ratios are 2, 1 and 0.5, the score is 2,
  and 2 is classified as Moderate.
\<close>

theorem aqi_example:
  "row_over_limit [(''PM2.5'', Fin 50), (''PM10'', Fin 50), (''NO2'', Fin 20)]
     [(''PM2.5'', Fin 25), (''PM10'', Fin 50), (''NO2'', Fin 40)] ''PM2.5'' = Inr (Fin 2) \<and>
   row_over_limit [(''PM2.5'', Fin 50), (''PM10'', Fin 50), (''NO2'', Fin 20)]
     [(''PM2.5'', Fin 25), (''PM10'', Fin 50), (''NO2'', Fin 40)] ''PM10'' = Inr (Fin 1) \<and>
   row_over_limit [(''PM2.5'', Fin 50), (''PM10'', Fin 50), (''NO2'', Fin 20)]
     [(''PM2.5'', Fin 25), (''PM10'', Fin 50), (''NO2'', Fin 40)] ''NO2'' = Inr (Fin (1 / 2)) \<and>
   calculate_simple_aqi [(''PM2.5'', Fin 50), (''PM10'', Fin 50), (''NO2'', Fin 20)]
     [(''PM2.5'', Fin 25), (''PM10'', Fin 50), (''NO2'', Fin 40)] = Inr (Fin 2) \<and>
   classify_aqi (Fin 2) = ''Moderate''"
  by (simp add: calculate_simple_aqi_def row_over_limit_def getitem_def py_max_def
      classify_aqi_def)

text \<open>
  C4, as stated, fails.  An aggregate without SO2 and O3 is scored against the limits of
  \<^verbatim>\<open>main\<close>, which list both; a negative limit gives a value; a zero limit gives
  infinity.  None of the three calls fails.
\<close>

theorem calculate_simple_aqi_no_limit_check:
  "calculate_simple_aqi [(''PM2.5'', Fin 50), (''PM10'', Fin 50), (''NO2'', Fin 20)] who_limits
     = Inr (Fin 2) \<and>
   calculate_simple_aqi [(''PM2.5'', Fin 50), (''PM10'', Fin 50), (''NO2'', Fin 20)]
     [(''PM2.5'', Fin (- 25)), (''PM10'', Fin 50), (''NO2'', Fin 40)] = Inr (Fin 1) \<and>
   calculate_simple_aqi [(''PM2.5'', Fin 50), (''PM10'', Fin 50), (''NO2'', Fin 20)]
     [(''PM2.5'', Fin 0), (''PM10'', Fin 50), (''NO2'', Fin 40)] = Inr PInf"
  by (simp add: calculate_simple_aqi_def row_over_limit_def getitem_def py_max_def
      who_limits_def)

text \<open>
  C4, amended.  The score fails exactly when the aggregate or the limits table has no
  entry for PM2.5, PM10 or NO2, and the failure is the \<^verbatim>\<open>KeyError\<close> that names the
  absent pollutant: the first of PM2.5, PM10, NO2, in this order, that one of the two
  tables lacks.  So a pollutant that only the limits table lists is not required of the
  aggregate, and no limit is rejected for being zero or negative.
\<close>

theorem calculate_simple_aqi_fails_iff_key_missing:
  "(isl (calculate_simple_aqi row limits) \<longleftrightarrow>
      (\<exists>p \<in> {''PM2.5'', ''PM10'', ''NO2''}. map_of row p = None \<or> map_of limits p = None)) \<and>
   (\<forall>e. calculate_simple_aqi row limits = Inl e \<longleftrightarrow>
      e = KeyError ''PM2.5'' \<and>
        (map_of row ''PM2.5'' = None \<or> map_of limits ''PM2.5'' = None) \<or>
      e = KeyError ''PM10'' \<and>
        map_of row ''PM2.5'' \<noteq> None \<and> map_of limits ''PM2.5'' \<noteq> None \<and>
        (map_of row ''PM10'' = None \<or> map_of limits ''PM10'' = None) \<or>
      e = KeyError ''NO2'' \<and>
        map_of row ''PM2.5'' \<noteq> None \<and> map_of limits ''PM2.5'' \<noteq> None \<and>
        map_of row ''PM10'' \<noteq> None \<and> map_of limits ''PM10'' \<noteq> None \<and>
        (map_of row ''NO2'' = None \<or> map_of limits ''NO2'' = None))"
proof -
  have rol: "row_over_limit row limits p = Inl e \<longleftrightarrow>
      e = KeyError p \<and> (map_of row p = None \<or> map_of limits p = None)" for p e
    by (auto simp add: row_over_limit_def getitem_def split: option.splits)
  have ok: "(\<exists>v. row_over_limit row limits p = Inr v) \<longleftrightarrow>
      map_of row p \<noteq> None \<and> map_of limits p \<noteq> None" for p
    by (auto simp add: row_over_limit_def getitem_def split: option.splits)
  have isl: "isl (calculate_simple_aqi row limits) \<longleftrightarrow>
      isl (row_over_limit row limits ''PM2.5'') \<or> isl (row_over_limit row limits ''PM10'') \<or>
      isl (row_over_limit row limits ''NO2'')"
    by (simp add: calculate_simple_aqi_def split: sum.splits)
  have err: "calculate_simple_aqi row limits = Inl e \<longleftrightarrow>
      row_over_limit row limits ''PM2.5'' = Inl e \<or>
      (\<exists>v. row_over_limit row limits ''PM2.5'' = Inr v) \<and>
        row_over_limit row limits ''PM10'' = Inl e \<or>
      (\<exists>v. row_over_limit row limits ''PM2.5'' = Inr v) \<and>
        (\<exists>v. row_over_limit row limits ''PM10'' = Inr v) \<and>
        row_over_limit row limits ''NO2'' = Inl e" for e
    by (simp add: calculate_simple_aqi_def split: sum.splits)
  have first: "isl (calculate_simple_aqi row limits) \<longleftrightarrow>
      (\<exists>p \<in> {''PM2.5'', ''PM10'', ''NO2''}. map_of row p = None \<or> map_of limits p = None)"
    unfolding isl by (simp add: row_over_limit_isl)
  have second: "\<forall>e. calculate_simple_aqi row limits = Inl e \<longleftrightarrow>
      e = KeyError ''PM2.5'' \<and>
        (map_of row ''PM2.5'' = None \<or> map_of limits ''PM2.5'' = None) \<or>
      e = KeyError ''PM10'' \<and>
        map_of row ''PM2.5'' \<noteq> None \<and> map_of limits ''PM2.5'' \<noteq> None \<and>
        (map_of row ''PM10'' = None \<or> map_of limits ''PM10'' = None) \<or>
      e = KeyError ''NO2'' \<and>
        map_of row ''PM2.5'' \<noteq> None \<and> map_of limits ''PM2.5'' \<noteq> None \<and>
        map_of row ''PM10'' \<noteq> None \<and> map_of limits ''PM10'' \<noteq> None \<and>
        (map_of row ''NO2'' = None \<or> map_of limits ''NO2'' = None)"
    unfolding err rol ok by (simp only: conj_ac simp_thms)
  from first second show ?thesis by (rule conjI)
qed

theorem calculate_simple_aqi_fails_iff_key_missing_witness:
  "calculate_simple_aqi [(''PM2.5'', Fin 50), (''PM10'', Fin 50)] who_limits
     = Inl (KeyError ''NO2'') \<and>
   isl (calculate_simple_aqi [(''PM2.5'', Fin 50), (''PM10'', Fin 50)] who_limits)"
  using calculate_simple_aqi_fails_iff_key_missing
    [of "[(''PM2.5'', Fin 50), (''PM10'', Fin 50)]" who_limits]
  by (simp add: who_limits_def)

text \<open>
  C7, as stated, fails.  With the negative limits -25, -50 and -40, raising the NO2 mean
  from 20 to 40 lowers the score from -0.5 to -1.  With a PM2.5 mean that is NaN the
  score is NaN before and after a rise of NO2, and NaN is not greater than or equal to
  NaN.
\<close>

theorem calculate_simple_aqi_not_monotone:
  "calculate_simple_aqi [(''PM2.5'', Fin 50), (''PM10'', Fin 50), (''NO2'', Fin 20)]
     [(''PM2.5'', Fin (- 25)), (''PM10'', Fin (- 50)), (''NO2'', Fin (- 40))]
     = Inr (Fin (- 1 / 2)) \<and>
   calculate_simple_aqi [(''PM2.5'', Fin 50), (''PM10'', Fin 50), (''NO2'', Fin 40)]
     [(''PM2.5'', Fin (- 25)), (''PM10'', Fin (- 50)), (''NO2'', Fin (- 40))]
     = Inr (Fin (- 1)) \<and>
   \<not> fle (Fin (- 1 / 2)) (Fin (- 1)) \<and>
   calculate_simple_aqi [(''PM2.5'', NaN), (''PM10'', Fin 50), (''NO2'', Fin 20)] who_limits
     = Inr NaN \<and>
   calculate_simple_aqi [(''PM2.5'', NaN), (''PM10'', Fin 50), (''NO2'', Fin 40)] who_limits
     = Inr NaN \<and>
   \<not> fle NaN NaN"
  by (simp add: calculate_simple_aqi_def row_over_limit_def getitem_def py_max_def
      who_limits_def)

text \<open>
  C7, amended.  For a fixed limits table whose PM2.5, PM10 and NO2 limits are positive
  numbers, the score is monotone in each pollutant on aggregates whose PM2.5, PM10 and
  NO2 means are finite numbers: when two such aggregates agree on every pollutant but
  \<open>q\<close>, and the second has the greater or equal mean for \<open>q\<close>, both are scored and the
  second score is greater than or equal to the first.
\<close>

theorem calculate_simple_aqi_mono:
  assumes limits: "map_of limits ''PM2.5'' = Some (Fin l25)" "0 < l25"
      "map_of limits ''PM10'' = Some (Fin l10)" "0 < l10"
      "map_of limits ''NO2'' = Some (Fin lno2)" "0 < lno2"
    and row1: "map_of row1 ''PM2.5'' = Some (Fin x25)" "map_of row1 ''PM10'' = Some (Fin x10)"
      "map_of row1 ''NO2'' = Some (Fin xno2)"
    and others: "\<forall>p. p \<noteq> q \<longrightarrow> map_of row2 p = map_of row1 p"
    and changed: "map_of row1 q = Some (Fin c1)" "map_of row2 q = Some (Fin c2)" "c1 \<le> c2"
  shows "\<exists>aqi1 aqi2. calculate_simple_aqi row1 limits = Inr (Fin aqi1) \<and>
    calculate_simple_aqi row2 limits = Inr (Fin aqi2) \<and> aqi1 \<le> aqi2 \<and>
    fle (Fin aqi1) (Fin aqi2)"
proof -
  have "\<exists>y. map_of row2 p = Some (Fin y) \<and> (\<forall>x. map_of row1 p = Some (Fin x) \<longrightarrow> x \<le> y)"
    if "\<exists>x. map_of row1 p = Some (Fin x)" for p
    using that others changed by (cases "p = q") auto
  with row1 obtain y25 y10 yno2 where row2:
    "map_of row2 ''PM2.5'' = Some (Fin y25)" "map_of row2 ''PM10'' = Some (Fin y10)"
    "map_of row2 ''NO2'' = Some (Fin yno2)" and le: "x25 \<le> y25" "x10 \<le> y10" "xno2 \<le> yno2"
    by (metis (no_types, lifting))
  have s1: "calculate_simple_aqi row1 limits =
      Inr (Fin (max (x25 / l25) (max (x10 / l10) (xno2 / lno2))))"
    using limits row1 by (simp add: calculate_simple_aqi_Fin)
  have s2: "calculate_simple_aqi row2 limits =
      Inr (Fin (max (y25 / l25) (max (y10 / l10) (yno2 / lno2))))"
    using limits row2 by (simp add: calculate_simple_aqi_Fin)
  have "x25 / l25 \<le> y25 / l25" "x10 / l10 \<le> y10 / l10" "xno2 / lno2 \<le> yno2 / lno2"
    using le limits by (simp_all add: divide_right_mono)
  then have "max (x25 / l25) (max (x10 / l10) (xno2 / lno2))
      \<le> max (y25 / l25) (max (y10 / l10) (yno2 / lno2))"
    by (intro max.mono)
  with s1 s2 show ?thesis by simp
qed

theorem calculate_simple_aqi_mono_witness:
  "calculate_simple_aqi [(''PM2.5'', Fin 20), (''PM10'', Fin 50), (''NO2'', Fin 20)] who_limits
     = Inr (Fin 1) \<and>
   calculate_simple_aqi [(''PM2.5'', Fin 50), (''PM10'', Fin 50), (''NO2'', Fin 20)] who_limits
     = Inr (Fin 2)"
  using calculate_simple_aqi_mono [of who_limits 25 50 40
      "[(''PM2.5'', Fin 20), (''PM10'', Fin 50), (''NO2'', Fin 20)]" 20 50 20 "''PM2.5''"
      "[(''PM2.5'', Fin 50), (''PM10'', Fin 50), (''NO2'', Fin 20)]" 20 50]
  by (simp add: who_limits_def calculate_simple_aqi_def row_over_limit_def getitem_def
      py_max_def)

text \<open>
  C9.  The score depends only on the PM2.5, PM10 and NO2 entries of its two inputs: two
  aggregates that agree on these three, scored against two limits tables that agree on
  these three, give the same result (the same value or the same failure), whatever the
  other entries are.
\<close>

theorem calculate_simple_aqi_depends_on_three:
  assumes "\<forall>p \<in> {''PM2.5'', ''PM10'', ''NO2''}.
      map_of row1 p = map_of row2 p \<and> map_of limits1 p = map_of limits2 p"
  shows "calculate_simple_aqi row1 limits1 = calculate_simple_aqi row2 limits2"
proof -
  have "row_over_limit row1 limits1 p = row_over_limit row2 limits2 p"
    if "p \<in> {''PM2.5'', ''PM10'', ''NO2''}" for p
  proof -
    from assms that have "map_of row1 p = map_of row2 p" "map_of limits1 p = map_of limits2 p"
      by blast+
    then have "getitem row1 p = getitem row2 p" "getitem limits1 p = getitem limits2 p"
      by (simp_all add: getitem_def)
    then show ?thesis by (simp add: row_over_limit_def split: sum.splits)
  qed
  then have eqs:
    "row_over_limit row1 limits1 ''PM2.5'' = row_over_limit row2 limits2 ''PM2.5''"
    "row_over_limit row1 limits1 ''PM10'' = row_over_limit row2 limits2 ''PM10''"
    "row_over_limit row1 limits1 ''NO2'' = row_over_limit row2 limits2 ''NO2''"
    by simp_all
  show ?thesis unfolding calculate_simple_aqi_def eqs by (rule refl)
qed

theorem calculate_simple_aqi_depends_on_three_witness:
  "calculate_simple_aqi
     [(''PM2.5'', Fin 50), (''PM10'', Fin 50), (''SO2'', Fin 7), (''NO2'', Fin 20),
      (''CO'', Fin 900)]
     who_limits =
   calculate_simple_aqi
     [(''PM2.5'', Fin 50), (''PM10'', Fin 50), (''SO2'', Fin 1000), (''NO2'', Fin 20),
      (''O3'', NaN)]
     [(''SO2'', Fin 0), (''NO2'', Fin 40), (''PM10'', Fin 50), (''PM2.5'', Fin 25)]"
  using calculate_simple_aqi_depends_on_three [of
     "[(''PM2.5'', Fin 50), (''PM10'', Fin 50), (''SO2'', Fin 7), (''NO2'', Fin 20),
       (''CO'', Fin 900)]"
     "[(''PM2.5'', Fin 50), (''PM10'', Fin 50), (''SO2'', Fin 1000), (''NO2'', Fin 20),
       (''O3'', NaN)]"
     who_limits
     "[(''SO2'', Fin 0), (''NO2'', Fin 40), (''PM10'', Fin 50), (''PM2.5'', Fin 25)]"]
  by (simp add: who_limits_def)

subsection \<open>The classification\<close>

text \<open>
  C2.  For every non-negative value the classification returns exactly one of the five
  categories, by the partition \<open>(-\<infinity>, 1]\<close> Good, \<open>(1, 2]\<close> Moderate, \<open>(2, 3]\<close> Unhealthy for
  Sensitive Groups, \<open>(3, 4]\<close> Unhealthy, \<open>(4, \<infinity>)\<close> Very Unhealthy: each category is
  returned on its interval and nowhere else, so 1 is Good and everything above 1 is
  Moderate or worse.
\<close>

theorem classify_aqi_partition:
  assumes "0 \<le> x"
  shows "classify_aqi (Fin x) \<in> {''Good'', ''Moderate'', ''Unhealthy for Sensitive Groups'',
      ''Unhealthy'', ''Very Unhealthy''} \<and>
    (classify_aqi (Fin x) = ''Good'' \<longleftrightarrow> x \<le> 1) \<and>
    (classify_aqi (Fin x) = ''Moderate'' \<longleftrightarrow> 1 < x \<and> x \<le> 2) \<and>
    (classify_aqi (Fin x) = ''Unhealthy for Sensitive Groups'' \<longleftrightarrow> 2 < x \<and> x \<le> 3) \<and>
    (classify_aqi (Fin x) = ''Unhealthy'' \<longleftrightarrow> 3 < x \<and> x \<le> 4) \<and>
    (classify_aqi (Fin x) = ''Very Unhealthy'' \<longleftrightarrow> 4 < x)"
  by (simp add: classify_aqi_def)

theorem classify_aqi_partition_witness:
  "(0::real) \<le> 1 \<and> classify_aqi (Fin 1) = ''Good'' \<and>
   classify_aqi (Fin (10000001 / 10000000)) = ''Moderate''"
  using classify_aqi_partition [of 1] classify_aqi_partition [of "10000001 / 10000000"]
  by simp

text \<open>
  C10.  The classification is total over all real values, negative ones included: every
  real value gets one of the five categories, and every strictly negative value is Good.
\<close>

theorem classify_aqi_total:
  "classify_aqi (Fin x) \<in> {''Good'', ''Moderate'', ''Unhealthy for Sensitive Groups'',
      ''Unhealthy'', ''Very Unhealthy''} \<and>
   (x < 0 \<longrightarrow> classify_aqi (Fin x) = ''Good'')"
  by (simp add: classify_aqi_def)

theorem classify_aqi_total_witness:
  "(- 3 :: real) < 0 \<and> classify_aqi (Fin (- 3)) = ''Good''"
  using classify_aqi_total [of "- 3"] by simp

subsection \<open>The seasons\<close>




subsection \<open>The forward fill\<close>

text \<open>
  C5.  In every column, a missing cell is replaced by the nearest non-missing cell above
  it (the one with only missing cells between the two); when every cell above it is
  missing too, it stays missing.  No other value is ever put in.
\<close>

theorem fillna_ffill_nearest_preceding:
  assumes "map_of df name = Some cells" and "i < length cells" and "cells ! i = None"
  shows "\<exists>filled. map_of (fillna_ffill df) name = Some filled \<and>
    length filled = length cells \<and>
    (\<forall>j v. j < i \<and> cells ! j = Some v \<and> (\<forall>k. j < k \<and> k < i \<longrightarrow> cells ! k = None)
       \<longrightarrow> filled ! i = Some v) \<and>
    ((\<forall>j<i. cells ! j = None) \<longrightarrow> filled ! i = None)"
proof -
  have filled: "map_of (fillna_ffill df) name = Some (ffill cells)"
    using assms(1) by (simp add: map_of_fillna_ffill)
  have len: "length (ffill cells) = length cells"
    by (simp add: ffill_def length_ffill_from)
  have carried: "ffill cells ! i = Some v"
    if "j < i" "cells ! j = Some v" "\<forall>k. j < k \<and> k < i \<longrightarrow> cells ! k = None" for j v
  proof -
    from that(3) assms(3) have "\<forall>k. j < k \<and> k \<le> i \<longrightarrow> cells ! k = None"
      by (auto simp add: le_less)
    with ffill_from_carries [of i cells j v None] assms(2) that(1,2) show ?thesis
      by (simp add: ffill_def)
  qed
  have leading: "ffill cells ! i = None" if "\<forall>j<i. cells ! j = None"
  proof -
    from that assms(3) have "\<forall>j\<le>i. cells ! j = None"
      by (auto simp add: le_less)
    with ffill_from_all_missing [of i cells None] assms(2) show ?thesis
      by (simp add: ffill_def)
  qed
  from filled len carried leading show ?thesis by blast
qed

theorem fillna_ffill_nearest_preceding_witness:
  "map_of (fillna_ffill [(''PM2.5'', [None, Some (4::int), None, None, Some 9, None])])
     ''PM2.5'' = Some [None, Some 4, Some 4, Some 4, Some 9, Some 9]"
  using fillna_ffill_nearest_preceding
    [of "[(''PM2.5'', [None, Some (4::int), None, None, Some 9, None])]" "''PM2.5''"
      "[None, Some (4::int), None, None, Some 9, None]" 3]
  by (simp add: fillna_ffill_def ffill_def)

text \<open>
  C8.  The forward fill is idempotent: filling a filled data frame again changes nothing.
\<close>

theorem fillna_ffill_idempotent: "fillna_ffill (fillna_ffill df) = fillna_ffill df"
  by (induction df) (auto simp add: fillna_ffill_def ffill_def ffill_from_idem)

end
